theory Spec2Isabelle
  imports Main "HOL-Library.Word"
begin

section \<open>JavaScript strings and JSON values\<close>

text \<open>
  A JavaScript string is a sequence of UTF-16 code units; \<open>s.length\<close> counts them and
  the regular-expression class \<open>\s\<close> is a set of them. User-supplied data (names, email
  addresses, passwords, tokens) is therefore a list of 16-bit words. Property names,
  cookie names and the fixed messages of the program are ASCII literals and are kept as
  HOL strings.
\<close>

type_synonym js_char = "16 word"
type_synonym js_string = "js_char list"

definition ascii :: "string \<Rightarrow> js_string" where
  "ascii s = map (\<lambda>c. of_nat (of_char c)) s"

definition AT :: js_char where
  "AT = 0x40"

definition DOT :: js_char where
  "DOT = 0x2E"

text \<open>
  The members of \<open>\s\<close> (WhiteSpace and LineTerminator of ECMAScript), which are also what
  \<open>String.prototype.trim\<close> strips.
\<close>

definition is_space :: "js_char \<Rightarrow> bool" where
  "is_space c =
     (c \<in> set [0x09, 0x0A, 0x0B, 0x0C, 0x0D, 0x20, 0xA0, 0x1680,
                0x2028, 0x2029, 0x202F, 0x205F, 0x3000, 0xFEFF]
      \<or> (0x2000 \<le> c \<and> c \<le> 0x200A))"

text \<open>\<open>s.trim() === ''\<close>\<close>

definition blank :: "js_string \<Rightarrow> bool" where
  "blank s = list_all is_space s"

text \<open>\<open>s.split(d)\<close> for a one-character separator: always at least one part.\<close>

fun split_on :: "'a \<Rightarrow> 'a list \<Rightarrow> 'a list list" where
  "split_on d [] = [[]]"
| "split_on d (c # cs) =
     (if c = d then [] # split_on d cs
      else (case split_on d cs of
              [] \<Rightarrow> [[c]]
            | part # parts \<Rightarrow> (c # part) # parts))"

datatype json =
    JNull
  | JBool bool
  | JNumber int
  | JString js_string
  | JArray "json list"
  | JObject "(string \<times> json) list"

type_synonym json_obj = "(string \<times> json) list"

text \<open>\<open>obj[k] = v\<close>: an existing property keeps its place, a new one goes last.\<close>

definition set_prop :: "string \<Rightarrow> json \<Rightarrow> json_obj \<Rightarrow> json_obj" where
  "set_prop k v obj =
     (if k \<in> fst ` set obj then map (\<lambda>(k', v'). if k' = k then (k', v) else (k', v')) obj
      else obj @ [(k, v)])"

section \<open>Errors and the external libraries\<close>

text \<open>
  Everything the program or one of its libraries can throw. An \<open>async\<close> function of the
  source returns \<open>error + 'a\<close>: \<open>Inl\<close> is a rejected promise, \<open>Inr\<close> a resolved one.
\<close>

datatype error =
    JsonWebTokenError string
  | TokenExpiredError
  | NotBeforeError
  | Error string
  | TypeError string
  | PrismaClientValidationError
  | PrismaClientKnownRequestError string
  | PrismaClientUnknownRequestError
  | PrismaClientInitializationError

datatype alg = HS256 | HS384 | HS512 | OtherAlg

text \<open>
  The primitives of the libraries \<open>jsonwebtoken\<close>, \<open>bcryptjs\<close> and of the database's
  \<open>uuid()\<close> default are parameters of the model:
  \<^item> \<open>b64_header\<close>, \<open>b64_payload\<close>: base64url of the JSON text of a JOSE header with the
    given \<open>alg\<close>, and of a claims object;
  \<^item> \<open>header_alg\<close>: the \<open>alg\<close> of a header part (\<open>None\<close> where the part is not base64url of
    a JSON header);
  \<^item> \<open>payload_value h p\<close>: what \<open>decode\<close> makes of the payload part \<open>p\<close> under the header
    part \<open>h\<close>: the object or array its JSON text denotes; any other JSON value when the
    header says \<open>typ: JWT\<close>; else the decoded text itself, as a string (\<open>None\<close> where the
    part is not base64url, or not JSON under a \<open>typ: JWT\<close> header);
  \<^item> \<open>hmac a key input\<close>: base64url of the HMAC of \<open>input\<close> under \<open>key\<close>;
  \<^item> \<open>bcrypt_genSalt rounds r\<close>: the salt drawn at entropy state \<open>r\<close>;
    \<open>bcrypt_hash password salt\<close> and \<open>bcrypt_compare password digest\<close>;
  \<^item> \<open>uuid r\<close>: the identifier drawn at entropy state \<open>r\<close>.
\<close>

record platform =
  b64_header :: "alg \<Rightarrow> js_string"
  header_alg :: "js_string \<Rightarrow> alg option"
  b64_payload :: "json_obj \<Rightarrow> js_string"
  payload_value :: "js_string \<Rightarrow> js_string \<Rightarrow> json option"
  hmac :: "alg \<Rightarrow> js_string \<Rightarrow> js_string \<Rightarrow> js_string"
  bcrypt_genSalt :: "nat \<Rightarrow> nat \<Rightarrow> js_string"
  bcrypt_hash :: "js_string \<Rightarrow> js_string \<Rightarrow> js_string"
  bcrypt_compare :: "js_string \<Rightarrow> js_string \<Rightarrow> bool"
  uuid :: "nat \<Rightarrow> js_string"

subsection \<open>jsonwebtoken\<close>

text \<open>
  \<open>sign(payload, secret, {expiresIn})\<close> on the HS256 path a string secret takes.
  \<open>now\<close> is \<open>Math.floor(Date.now() / 1000)\<close>. The claims object gets \<open>iat\<close> (its own
  \<open>iat\<close> when it has a non-zero one) and \<open>exp = iat + expiresIn\<close>; the token is
  \<open>header.payload.signature\<close>. JSON numbers are integers here, as the dates \<open>sign\<close>
  writes are.
\<close>

definition is_number :: "json option \<Rightarrow> bool" where
  "is_number v = (case v of Some (JNumber _) \<Rightarrow> True | _ \<Rightarrow> False)"

definition jwt_stamp :: "json_obj \<Rightarrow> nat \<Rightarrow> nat \<Rightarrow> error + json_obj" where
  "jwt_stamp payload expiresIn now =
     (if map_of payload ''nbf'' \<noteq> None \<and> \<not> is_number (map_of payload ''nbf'')
      then Inl (Error ''nbf should be a number of seconds'')
      else if map_of payload ''exp'' \<noteq> None
      then Inl (Error ''Bad options.expiresIn option the payload already has an exp property.'')
      else (case map_of payload ''iat'' of
              None \<Rightarrow>
                Inr (set_prop ''exp'' (JNumber (int now + int expiresIn))
                      (set_prop ''iat'' (JNumber (int now)) payload))
            | Some (JNumber n) \<Rightarrow>
                (let timestamp = (if n = 0 then int now else n)
                 in Inr (set_prop ''exp'' (JNumber (timestamp + int expiresIn))
                          (set_prop ''iat'' (JNumber timestamp) payload)))
            | Some _ \<Rightarrow> Inl (Error ''iat should be a number of seconds'')))"

definition jwt_sign :: "platform \<Rightarrow> json_obj \<Rightarrow> js_string \<Rightarrow> nat \<Rightarrow> nat \<Rightarrow> error + js_string" where
  "jwt_sign P payload secretOrPrivateKey expiresIn now =
     (if secretOrPrivateKey = [] then Inl (Error ''secretOrPrivateKey must have a value'')
      else (case jwt_stamp payload expiresIn now of
              Inl e \<Rightarrow> Inl e
            | Inr claims \<Rightarrow>
                (let securedInput = b64_header P HS256 @ DOT # b64_payload P claims
                 in Inr (securedInput @ DOT # hmac P HS256 secretOrPrivateKey securedInput))))"

text \<open>
  \<open>verify(token, secret)\<close> with no options: three dot-separated parts, a header and a
  payload that decode, a signature, an HMAC algorithm, the signature equal to the HMAC
  of \<open>header.payload\<close> under the secret, then \<open>payload.nbf\<close> and \<open>payload.exp\<close> against
  the clock. The payload is returned as decoded, a claims object or not. Every failure
  is a thrown error.
\<close>

text \<open>
  \<open>payload.k\<close>: the property of an object, \<open>undefined\<close> (\<open>None\<close>) on an object without it
  and on an array, string, number or boolean, a TypeError on null.
\<close>

definition property :: "json \<Rightarrow> string \<Rightarrow> error + json option" where
  "property v k =
     (case v of
        JObject kvs \<Rightarrow> Inr (map_of kvs k)
      | JNull \<Rightarrow> Inl (TypeError ''Cannot read properties of null'')
      | _ \<Rightarrow> Inr None)"

definition jwt_check_nbf :: "json \<Rightarrow> nat \<Rightarrow> error option" where
  "jwt_check_nbf payload clockTimestamp =
     (case property payload ''nbf'' of
        Inl e \<Rightarrow> Some e
      | Inr None \<Rightarrow> None
      | Inr (Some (JNumber nbf)) \<Rightarrow>
          if nbf > int clockTimestamp then Some NotBeforeError else None
      | Inr (Some _) \<Rightarrow> Some (JsonWebTokenError ''invalid nbf value''))"

definition jwt_check_exp :: "json \<Rightarrow> nat \<Rightarrow> error option" where
  "jwt_check_exp payload clockTimestamp =
     (case property payload ''exp'' of
        Inl e \<Rightarrow> Some e
      | Inr None \<Rightarrow> None
      | Inr (Some (JNumber e)) \<Rightarrow>
          if int clockTimestamp \<ge> e then Some TokenExpiredError else None
      | Inr (Some _) \<Rightarrow> Some (JsonWebTokenError ''invalid exp value''))"

definition jwt_verify :: "platform \<Rightarrow> js_string \<Rightarrow> js_string \<Rightarrow> nat \<Rightarrow> error + json" where
  "jwt_verify P jwtString secretOrPublicKey clockTimestamp =
     (if jwtString = [] then Inl (JsonWebTokenError ''jwt must be provided'')
      else (case split_on DOT jwtString of
              [h, p, s] \<Rightarrow>
                (case (header_alg P h, payload_value P h p) of
                   (Some a, Some payload) \<Rightarrow>
                     if blank s then Inl (JsonWebTokenError ''jwt signature is required'')
                     else if a \<notin> {HS256, HS384, HS512}
                       then Inl (JsonWebTokenError ''invalid algorithm'')
                     else if s \<noteq> hmac P a secretOrPublicKey (h @ DOT # p)
                       then Inl (JsonWebTokenError ''invalid signature'')
                     else (case jwt_check_nbf payload clockTimestamp of
                             Some e \<Rightarrow> Inl e
                           | None \<Rightarrow>
                               (case jwt_check_exp payload clockTimestamp of
                                  Some e \<Rightarrow> Inl e
                                | None \<Rightarrow> Inr payload))
                 | _ \<Rightarrow> Inl (JsonWebTokenError ''invalid token''))
            | _ \<Rightarrow> Inl (JsonWebTokenError ''jwt malformed'')))"

section \<open>Configuration\<close>

text \<open>\<open>process.env\<close>: a variable is unset (\<open>None\<close>) or holds a string.\<close>

record env =
  env_JWT_SECRET :: "js_string option"
  env_NODE_ENV :: "js_string option"

text \<open>\<open>process.env.JWT_SECRET || 'your-secret-key'\<close>: unset and empty both fall back.\<close>

definition JWT_SECRET :: "env \<Rightarrow> js_string" where
  "JWT_SECRET E =
     (case env_JWT_SECRET E of
        None \<Rightarrow> ascii ''your-secret-key''
      | Some s \<Rightarrow> if s = [] then ascii ''your-secret-key'' else s)"

definition COOKIE_NAME :: string where
  "COOKIE_NAME = ''session_token''"

definition THIRTY_DAYS :: nat where
  "THIRTY_DAYS = 30 * 24 * 60 * 60"

section \<open>Token utilities\<close>

text \<open>
  The type \<open>User\<close>. It declares \<open>id: string\<close>, which the compiler does not enforce at
  run time: a \<open>User\<close> built by reading a property its source lacks has \<open>id\<close> undefined
  (\<open>None\<close>). The name is a string or null.
\<close>

record user =
  user_id :: "js_string option"
  user_name :: "js_string option"
  user_email :: js_string

definition json_of_name :: "js_string option \<Rightarrow> json" where
  "json_of_name n = (case n of None \<Rightarrow> JNull | Some s \<Rightarrow> JString s)"

text \<open>
  The object literal \<open>{ id, email, name }\<close> as \<open>sign\<close> serialises it: \<open>JSON.stringify\<close>
  leaves out a property whose value is undefined.
\<close>

definition token_claims :: "user \<Rightarrow> json_obj" where
  "token_claims u =
     (case user_id u of None \<Rightarrow> [] | Some i \<Rightarrow> [(''id'', JString i)])
     @ [(''email'', JString (user_email u)), (''name'', json_of_name (user_name u))]"

definition generateToken :: "platform \<Rightarrow> env \<Rightarrow> user \<Rightarrow> nat \<Rightarrow> error + js_string" where
  "generateToken P E u now = jwt_sign P (token_claims u) (JWT_SECRET E) THIRTY_DAYS now"

text \<open>
  \<open>try { return verify(token, JWT_SECRET) as User } catch { return null }\<close>. The cast
  checks nothing: the result is whatever payload the token carries.
\<close>

definition verifyToken :: "platform \<Rightarrow> env \<Rightarrow> js_string \<Rightarrow> nat \<Rightarrow> error + json option" where
  "verifyToken P E token now =
     (case jwt_verify P token (JWT_SECRET E) now of
        Inr payload \<Rightarrow> Inr (Some payload)
      | Inl _ \<Rightarrow> Inr None)"

text \<open>The session module's copy, which also logs the error.\<close>

definition session_verifyToken :: "platform \<Rightarrow> env \<Rightarrow> js_string \<Rightarrow> nat \<Rightarrow> error + json option" where
  "session_verifyToken P E token now =
     (case jwt_verify P token (JWT_SECRET E) now of
        Inr payload \<Rightarrow> Inr (Some payload)
      | Inl _ \<Rightarrow> Inr None)"

section \<open>The world of a request\<close>

text \<open>
  What the program reads and changes: the User table behind the ORM, the cookie store of
  the request being served, the clock (in seconds) and the entropy the random salts and
  identifiers are drawn from. \<open>db_up\<close> says whether the store can be reached; \<open>db_log\<close>
  records every statement sent to it, so that "no store access" can be stated. Console
  logging is not modelled. The model is sequential: one request at a time.

  A row has the scalar fields of the schema's \<open>User\<close> model, whose key is \<open>user_id\<close>.
\<close>

record db_user =
  row_user_id :: js_string
  row_email :: js_string
  row_name :: "js_string option"
  row_password :: js_string
  row_createdAt :: nat
  row_updatedAt :: nat

datatype db_query =
    FindUniqueByEmail js_string
  | FindUnique string js_string
  | CreateUser js_string
  | UpdateUser string js_string

record cookie =
  cookie_value :: js_string
  httpOnly :: bool
  secure :: bool
  sameSite :: string
  path :: string
  maxAge :: nat

record world =
  db_rows :: "db_user list"
  db_up :: bool
  db_log :: "db_query list"
  cookie_jar :: "string \<rightharpoonup> cookie"
  clock :: nat
  entropy :: nat

type_synonym 'a io = "world \<Rightarrow> (error + 'a) \<times> world"

definition io_return :: "'a \<Rightarrow> 'a io" where
  "io_return a w = (Inr a, w)"

definition io_throw :: "error \<Rightarrow> 'a io" where
  "io_throw e w = (Inl e, w)"

text \<open>\<open>const a = await m; ...\<close>: a rejection ends the rest.\<close>

definition io_bind :: "'a io \<Rightarrow> ('a \<Rightarrow> 'b io) \<Rightarrow> 'b io" where
  "io_bind m f w = (case m w of (Inl e, w') \<Rightarrow> (Inl e, w') | (Inr a, w') \<Rightarrow> f a w')"

text \<open>\<open>try { m } catch (error) { h }\<close>: what \<open>m\<close> did before it threw stays done.\<close>

definition io_catch :: "'a io \<Rightarrow> (error \<Rightarrow> 'a io) \<Rightarrow> 'a io" where
  "io_catch m h w = (case m w of (Inl e, w') \<Rightarrow> h e w' | (Inr a, w') \<Rightarrow> (Inr a, w'))"

text \<open>A library call that reads the clock.\<close>

definition io_clock :: "(nat \<Rightarrow> error + 'a) \<Rightarrow> 'a io" where
  "io_clock f w = (f (clock w), w)"

subsection \<open>The ORM client, on the User model\<close>

text \<open>
  The calls of the authentication module name only fields the schema has:
  \<open>findUnique({ where: { email } })\<close> resolves to the row or to null;
  \<open>create({ data: { name, email, password } })\<close> resolves to the new row, and rejects
  with P2002 when the email is taken (\<open>@unique\<close>). Every call rejects when the store
  cannot be reached. The store is PostgreSQL, whose text columns refuse a string with
  the character U+0000: \<open>create\<close> and \<open>update\<close> reject such a value. Identifiers drawn
  by \<open>uuid()\<close> are taken to be fresh.
\<close>

definition storable :: "js_string \<Rightarrow> bool" where
  "storable s = (0 \<notin> set s)"

definition storable_opt :: "js_string option \<Rightarrow> bool" where
  "storable_opt v = (case v of None \<Rightarrow> True | Some s \<Rightarrow> storable s)"

definition prisma_user_findUnique_email :: "js_string \<Rightarrow> db_user option io" where
  "prisma_user_findUnique_email email w =
     (let w' = w\<lparr>db_log := db_log w @ [FindUniqueByEmail email]\<rparr>
      in if \<not> db_up w then (Inl PrismaClientInitializationError, w')
         else (Inr (find (\<lambda>r. row_email r = email) (db_rows w)), w'))"

definition prisma_user_create ::
  "platform \<Rightarrow> js_string option \<Rightarrow> js_string \<Rightarrow> js_string \<Rightarrow> db_user io" where
  "prisma_user_create P name email password w =
     (let w' = w\<lparr>db_log := db_log w @ [CreateUser email]\<rparr>
      in if \<not> db_up w then (Inl PrismaClientInitializationError, w')
         else if \<not> (storable_opt name \<and> storable email \<and> storable password)
           then (Inl PrismaClientUnknownRequestError, w')
         else if find (\<lambda>r. row_email r = email) (db_rows w) \<noteq> None
           then (Inl (PrismaClientKnownRequestError ''P2002''), w')
         else (let row = \<lparr>row_user_id = uuid P (entropy w), row_email = email,
                            row_name = name, row_password = password,
                            row_createdAt = clock w, row_updatedAt = clock w\<rparr>
               in (Inr row, w'\<lparr>db_rows := db_rows w @ [row], entropy := Suc (entropy w)\<rparr>)))"

text \<open>
  The calls of the repository module carry a \<open>where\<close> on one named field and a \<open>select\<close>
  of named fields. The client validates a call against the schema before anything is
  sent to the store: a \<open>where\<close> on a field that is not unique, or a \<open>select\<close> of a field
  the model does not have, is rejected with a validation error. (The relation fields
  of \<open>User\<close> are left out: no call selects them.) A row is handed back as the object of
  its selected fields.
\<close>

definition User_fields :: "string list" where
  "User_fields = [''user_id'', ''email'', ''name'', ''password'', ''createdAt'', ''updatedAt'']"

definition User_unique_fields :: "string list" where
  "User_unique_fields = [''user_id'', ''email'']"

definition row_object :: "db_user \<Rightarrow> json_obj" where
  "row_object r =
     [(''user_id'', JString (row_user_id r)), (''email'', JString (row_email r)),
      (''name'', json_of_name (row_name r)), (''password'', JString (row_password r)),
      (''createdAt'', JNumber (int (row_createdAt r))),
      (''updatedAt'', JNumber (int (row_updatedAt r)))]"

definition select_fields :: "string list \<Rightarrow> db_user \<Rightarrow> json_obj" where
  "select_fields sel r = filter (\<lambda>(k, v). k \<in> set sel) (row_object r)"

definition has_value :: "string \<Rightarrow> js_string \<Rightarrow> db_user \<Rightarrow> bool" where
  "has_value field v r = (map_of (row_object r) field = Some (JString v))"

definition prisma_user_findUnique ::
  "string \<Rightarrow> js_string \<Rightarrow> string list \<Rightarrow> json_obj option io" where
  "prisma_user_findUnique field v sel w =
     (if field \<notin> set User_unique_fields \<or> \<not> set sel \<subseteq> set User_fields
      then (Inl PrismaClientValidationError, w)
      else (let w' = w\<lparr>db_log := db_log w @ [FindUnique field v]\<rparr>
            in if \<not> db_up w then (Inl PrismaClientInitializationError, w')
               else (Inr (map_option (select_fields sel) (find (has_value field v) (db_rows w))),
                     w')))"

definition prisma_user_create_select ::
  "platform \<Rightarrow> js_string option \<Rightarrow> js_string \<Rightarrow> js_string \<Rightarrow> string list \<Rightarrow> json_obj io" where
  "prisma_user_create_select P name email password sel w =
     (if \<not> set sel \<subseteq> set User_fields then (Inl PrismaClientValidationError, w)
      else (case prisma_user_create P name email password w of
              (Inl e, w') \<Rightarrow> (Inl e, w')
            | (Inr row, w') \<Rightarrow> (Inr (select_fields sel row), w')))"

text \<open>\<open>Partial<{ name, email, password }>\<close>: a field left out is \<open>None\<close>.\<close>

record user_patch =
  patch_name :: "js_string option"
  patch_email :: "js_string option"
  patch_password :: "js_string option"

definition apply_patch :: "user_patch \<Rightarrow> nat \<Rightarrow> db_user \<Rightarrow> db_user" where
  "apply_patch d now r =
     r\<lparr>row_name := (case patch_name d of None \<Rightarrow> row_name r | Some n \<Rightarrow> Some n),
       row_email := (case patch_email d of None \<Rightarrow> row_email r | Some e \<Rightarrow> e),
       row_password := (case patch_password d of None \<Rightarrow> row_password r | Some p \<Rightarrow> p),
       row_updatedAt := now\<rparr>"

text \<open>
  \<open>update\<close> rejects with P2025 when no row matches and with P2002 when the new email
  belongs to another row.
\<close>

definition prisma_user_update ::
  "string \<Rightarrow> js_string \<Rightarrow> user_patch \<Rightarrow> string list \<Rightarrow> json_obj io" where
  "prisma_user_update field v d sel w =
     (if field \<notin> set User_unique_fields \<or> \<not> set sel \<subseteq> set User_fields
      then (Inl PrismaClientValidationError, w)
      else (let w' = w\<lparr>db_log := db_log w @ [UpdateUser field v]\<rparr>
            in if \<not> db_up w then (Inl PrismaClientInitializationError, w')
               else if \<not> (storable_opt (patch_name d) \<and> storable_opt (patch_email d)
                            \<and> storable_opt (patch_password d))
                 then (Inl PrismaClientUnknownRequestError, w')
               else (case find (has_value field v) (db_rows w) of
                       None \<Rightarrow> (Inl (PrismaClientKnownRequestError ''P2025''), w')
                     | Some r \<Rightarrow>
                         (let r' = apply_patch d (clock w) r
                          in if find (\<lambda>x. row_email x = row_email r'
                                          \<and> row_user_id x \<noteq> row_user_id r) (db_rows w) \<noteq> None
                             then (Inl (PrismaClientKnownRequestError ''P2002''), w')
                             else (Inr (select_fields sel r'),
                                   w'\<lparr>db_rows := map (\<lambda>x. if row_user_id x = row_user_id r
                                                            then r' else x) (db_rows w)\<rparr>)))))"

subsection \<open>The cookie store\<close>

text \<open>
  \<open>cookies()\<close> of \<open>next/headers\<close>, inside a request that may read and write cookies
  (a server action or a route handler), which is where these functions run.
\<close>

definition cookies :: "(string \<rightharpoonup> cookie) io" where
  "cookies w = (Inr (cookie_jar w), w)"

definition cookieStore_set :: "string \<Rightarrow> cookie \<Rightarrow> unit io" where
  "cookieStore_set name c w = (Inr (), w\<lparr>cookie_jar := (cookie_jar w)(name \<mapsto> c)\<rparr>)"

definition cookieStore_delete :: "string \<Rightarrow> unit io" where
  "cookieStore_delete name w = (Inr (), w\<lparr>cookie_jar := (cookie_jar w)(name := None)\<rparr>)"

text \<open>\<open>{ name: COOKIE_NAME, value, ...COOKIE_OPTIONS }\<close>\<close>

definition COOKIE_OPTIONS :: "env \<Rightarrow> js_string \<Rightarrow> cookie" where
  "COOKIE_OPTIONS E v =
     \<lparr>cookie_value = v, httpOnly = True,
      secure = (env_NODE_ENV E = Some (ascii ''production'')),
      sameSite = ''lax'', path = ''/'', maxAge = 30 * 24 * 60 * 60\<rparr>"

text \<open>
  A route handler does not touch the cookie store: it returns a response whose
  \<open>Set-Cookie\<close> headers the browser applies to its jar.
\<close>

datatype cookie_op = SetCookie string cookie | DeleteCookie string

fun apply_cookie_op :: "(string \<rightharpoonup> cookie) \<Rightarrow> cookie_op \<Rightarrow> (string \<rightharpoonup> cookie)" where
  "apply_cookie_op jar (SetCookie name c) = jar(name \<mapsto> c)"
| "apply_cookie_op jar (DeleteCookie name) = jar(name := None)"

section \<open>Password utilities\<close>

definition hashPassword :: "platform \<Rightarrow> js_string \<Rightarrow> js_string io" where
  "hashPassword P password w =
     (let salt = bcrypt_genSalt P 10 (entropy w)
      in (Inr (bcrypt_hash P password salt), w\<lparr>entropy := Suc (entropy w)\<rparr>))"


section \<open>Session utilities\<close>

record session =
  session_user :: "json option"
  isAuthenticated :: bool

text \<open>\<open>!!v\<close> on what \<open>verifyToken\<close> resolved to, null (\<open>None\<close>) or a payload.\<close>

definition truthy :: "json option \<Rightarrow> bool" where
  "truthy v =
     (case v of
        None \<Rightarrow> False
      | Some JNull \<Rightarrow> False
      | Some (JBool b) \<Rightarrow> b
      | Some (JNumber n) \<Rightarrow> n \<noteq> 0
      | Some (JString s) \<Rightarrow> s \<noteq> []
      | Some _ \<Rightarrow> True)"

text \<open>\<open>!token\<close> holds for a missing cookie and for an empty value.\<close>

definition getSession :: "platform \<Rightarrow> env \<Rightarrow> session io" where
  "getSession P E =
     io_bind cookies (\<lambda>cookieStore.
       case map_option cookie_value (cookieStore COOKIE_NAME) of
         None \<Rightarrow> io_return \<lparr>session_user = None, isAuthenticated = False\<rparr>
       | Some token \<Rightarrow>
           if token = [] then io_return \<lparr>session_user = None, isAuthenticated = False\<rparr>
           else io_bind (io_clock (verifyToken P E token)) (\<lambda>u.
                  io_return \<lparr>session_user = u, isAuthenticated = truthy u\<rparr>))"

definition getCurrentUser :: "platform \<Rightarrow> env \<Rightarrow> json option io" where
  "getCurrentUser P E = io_bind (getSession P E) (\<lambda>s. io_return (session_user s))"

text \<open>The session module's copies: the same steps inside a \<open>try\<close>.\<close>

definition session_getSession :: "platform \<Rightarrow> env \<Rightarrow> session io" where
  "session_getSession P E =
     io_catch
       (io_bind cookies (\<lambda>cookieStore.
          case map_option cookie_value (cookieStore COOKIE_NAME) of
            None \<Rightarrow> io_return \<lparr>session_user = None, isAuthenticated = False\<rparr>
          | Some token \<Rightarrow>
              if token = [] then io_return \<lparr>session_user = None, isAuthenticated = False\<rparr>
              else io_bind (io_clock (session_verifyToken P E token)) (\<lambda>u.
                     io_return \<lparr>session_user = u, isAuthenticated = truthy u\<rparr>)))
       (\<lambda>error. io_return \<lparr>session_user = None, isAuthenticated = False\<rparr>)"

definition session_getCurrentUser :: "platform \<Rightarrow> env \<Rightarrow> json option io" where
  "session_getCurrentUser P E = io_bind (session_getSession P E) (\<lambda>s. io_return (session_user s))"

section \<open>Authentication actions\<close>

record auth_result =
  success :: bool
  message :: "string option"
  result_user :: "user option"

record response =
  status :: nat
  body :: auth_result
  cookie_ops :: "cookie_op list"

text \<open>\<open>NextResponse.json(body, { status })\<close>; the status defaults to 200.\<close>

definition NextResponse_json :: "auth_result \<Rightarrow> nat \<Rightarrow> response" where
  "NextResponse_json b st = \<lparr>status = st, body = b, cookie_ops = []\<rparr>"

text \<open>What the browser's cookie jar holds once it has processed a response.\<close>

definition receive :: "response \<Rightarrow> (string \<rightharpoonup> cookie) \<Rightarrow> (string \<rightharpoonup> cookie)" where
  "receive resp jar = foldl apply_cookie_op jar (cookie_ops resp)"

text \<open>
  The object literal \<open>{ id: user.id, email: user.email, name: user.name }\<close> on a row the
  ORM returned. A row has the properties \<open>user_id\<close>, \<open>email\<close>, \<open>name\<close>, \<open>password\<close>,
  \<open>createdAt\<close> and \<open>updatedAt\<close>; it has no property \<open>id\<close>, so \<open>user.id\<close> is undefined.
\<close>

definition user_of_row :: "db_user \<Rightarrow> user" where
  "user_of_row r = \<lparr>user_id = None, user_name = row_name r, user_email = row_email r\<rparr>"

definition failure :: "string \<Rightarrow> auth_result" where
  "failure m = \<lparr>success = False, message = Some m, result_user = None\<rparr>"

subsection \<open>Route handlers\<close>


definition registerHandler ::
  "platform \<Rightarrow> env \<Rightarrow> js_string \<Rightarrow> js_string \<Rightarrow> js_string \<Rightarrow> response io" where
  "registerHandler P E name email password =
     io_catch
       (io_bind (prisma_user_findUnique_email email) (\<lambda>existingUser.
          case existingUser of
            Some _ \<Rightarrow> io_return (NextResponse_json (failure ''User already exists'') 409)
          | None \<Rightarrow>
              io_bind (hashPassword P password) (\<lambda>hashedPassword.
              io_bind (prisma_user_create P (Some name) email hashedPassword) (\<lambda>newUser.
              io_bind (io_clock (generateToken P E (user_of_row newUser))) (\<lambda>token.
                io_return
                  ((NextResponse_json
                      \<lparr>success = True, message = None, result_user = Some (user_of_row newUser)\<rparr> 200)
                    \<lparr>cookie_ops := [SetCookie COOKIE_NAME (COOKIE_OPTIONS E token)]\<rparr>))))))
       (\<lambda>error. io_return (NextResponse_json (failure ''An error occurred during registration'') 500))"

definition logoutHandler :: response where
  "logoutHandler =
     (NextResponse_json \<lparr>success = True, message = None, result_user = None\<rparr> 200)
       \<lparr>cookie_ops := [DeleteCookie COOKIE_NAME]\<rparr>"

subsection \<open>Server actions\<close>


definition register ::
  "platform \<Rightarrow> env \<Rightarrow> js_string \<Rightarrow> js_string \<Rightarrow> js_string \<Rightarrow> auth_result io" where
  "register P E name email password =
     io_catch
       (io_bind (prisma_user_findUnique_email email) (\<lambda>existingUser.
          case existingUser of
            Some _ \<Rightarrow> io_return (failure ''User already exists'')
          | None \<Rightarrow>
              io_bind (hashPassword P password) (\<lambda>hashedPassword.
              io_bind (prisma_user_create P (Some name) email hashedPassword) (\<lambda>newUser.
              io_bind (io_clock (generateToken P E (user_of_row newUser))) (\<lambda>token.
              io_bind cookies (\<lambda>cookieStore.
              io_bind (cookieStore_set COOKIE_NAME (COOKIE_OPTIONS E token)) (\<lambda>_.
                io_return
                  \<lparr>success = True, message = None, result_user = Some (user_of_row newUser)\<rparr>)))))))
       (\<lambda>error. io_return (failure ''An error occurred during registration''))"

definition logout :: "unit io" where
  "logout = io_bind cookies (\<lambda>cookieStore. cookieStore_delete COOKIE_NAME)"

section \<open>Form handlers\<close>

subsection \<open>Regular expressions\<close>

text \<open>
  \<open>re.test(s)\<close> for a pattern anchored at both ends, by derivatives; \<open>lang\<close> is what the
  pattern denotes.
\<close>

datatype 'a rexp =
    Zero
  | One
  | Atom "'a \<Rightarrow> bool"
  | Alt "'a rexp" "'a rexp"
  | Seq "'a rexp" "'a rexp"
  | Star "'a rexp"

fun nullable :: "'a rexp \<Rightarrow> bool" where
  "nullable Zero = False"
| "nullable One = True"
| "nullable (Atom p) = False"
| "nullable (Alt r s) = (nullable r \<or> nullable s)"
| "nullable (Seq r s) = (nullable r \<and> nullable s)"
| "nullable (Star r) = True"

fun deriv :: "'a \<Rightarrow> 'a rexp \<Rightarrow> 'a rexp" where
  "deriv c Zero = Zero"
| "deriv c One = Zero"
| "deriv c (Atom p) = (if p c then One else Zero)"
| "deriv c (Alt r s) = Alt (deriv c r) (deriv c s)"
| "deriv c (Seq r s) =
     (if nullable r then Alt (Seq (deriv c r) s) (deriv c s) else Seq (deriv c r) s)"
| "deriv c (Star r) = Seq (deriv c r) (Star r)"

fun regex_test :: "'a rexp \<Rightarrow> 'a list \<Rightarrow> bool" where
  "regex_test r [] = nullable r"
| "regex_test r (c # cs) = regex_test (deriv c r) cs"

definition conc :: "'a list set \<Rightarrow> 'a list set \<Rightarrow> 'a list set" where
  "conc A B = {u @ v | u v. u \<in> A \<and> v \<in> B}"

inductive_set star :: "'a list set \<Rightarrow> 'a list set" for A :: "'a list set" where
  star_Nil: "[] \<in> star A"
| star_step: "u \<in> A \<Longrightarrow> v \<in> star A \<Longrightarrow> u @ v \<in> star A"

fun lang :: "'a rexp \<Rightarrow> 'a list set" where
  "lang Zero = {}"
| "lang One = {[]}"
| "lang (Atom p) = {[c] | c. p c}"
| "lang (Alt r s) = lang r \<union> lang s"
| "lang (Seq r s) = conc (lang r) (lang s)"
| "lang (Star r) = star (lang r)"

text \<open>\<open>r+\<close>\<close>

definition Plus :: "'a rexp \<Rightarrow> 'a rexp" where
  "Plus r = Seq r (Star r)"

text \<open>The class \<open>[^\s@]\<close>.\<close>

definition not_space_or_at :: "js_char \<Rightarrow> bool" where
  "not_space_or_at c = (\<not> is_space c \<and> c \<noteq> AT)"

text \<open>\<open>/^[^\s@]+@[^\s@]+\.[^\s@]+$/\<close>\<close>

definition emailRegex :: "js_char rexp" where
  "emailRegex =
     Seq (Plus (Atom not_space_or_at))
       (Seq (Atom (\<lambda>c. c = AT))
          (Seq (Plus (Atom not_space_or_at))
             (Seq (Atom (\<lambda>c. c = DOT))
                (Plus (Atom not_space_or_at)))))"

definition isValidEmail :: "js_string \<Rightarrow> bool" where
  "isValidEmail email = regex_test emailRegex email"

subsection \<open>handleRegister\<close>

text \<open>
  \<open>formData.get(k) as string\<close>: the field's string, or null (\<open>None\<close>) when the form has
  no such field.
\<close>

record register_form =
  form_name :: "js_string option"
  form_email :: "js_string option"
  form_password :: "js_string option"
  form_confirmPassword :: "js_string option"

record form_result =
  form_error :: "string option"
  form_success :: "bool option"

definition form_failed :: "string \<Rightarrow> form_result" where
  "form_failed m = \<lparr>form_error = Some m, form_success = None\<rparr>"

text \<open>\<open>m || d\<close> on an optional message.\<close>

definition or_default :: "string option \<Rightarrow> string \<Rightarrow> string" where
  "or_default m d = (case m of None \<Rightarrow> d | Some s \<Rightarrow> if s = [] then d else s)"

definition handleRegister :: "platform \<Rightarrow> env \<Rightarrow> register_form \<Rightarrow> form_result io" where
  "handleRegister P E formData =
     (case (form_name formData, form_email formData, form_password formData,
            form_confirmPassword formData) of
        (Some name, Some email, Some password, Some confirmPassword) \<Rightarrow>
          if name = [] \<or> email = [] \<or> password = [] \<or> confirmPassword = []
            then io_return (form_failed ''All fields are required'')
          else if \<not> isValidEmail email
            then io_return (form_failed ''Please enter a valid email address'')
          else if password \<noteq> confirmPassword
            then io_return (form_failed ''Passwords do not match'')
          else if length password < 8
            then io_return (form_failed ''Password must be at least 8 characters long'')
          else io_catch
                 (io_bind (register P E name email password) (\<lambda>result.
                    if \<not> success result
                    then io_return (form_failed (or_default (message result) ''Failed to register''))
                    else io_return \<lparr>form_error = None, form_success = Some True\<rparr>))
                 (\<lambda>error. io_return (form_failed ''An unexpected error occurred''))
      | _ \<Rightarrow> io_return (form_failed ''All fields are required''))"

section \<open>User repository\<close>

text \<open>
  Each function hands its argument object to the ORM as written: \<open>where: { id }\<close>,
  \<open>where: { email }\<close>, \<open>select: { id: true, name: true, email: true }\<close> (with
  \<open>password: true\<close> in \<open>getUserByEmail\<close>).
\<close>

definition getUserById :: "js_string \<Rightarrow> json_obj option io" where
  "getUserById uid =
     io_catch
       (prisma_user_findUnique ''id'' uid [''id'', ''name'', ''email''])
       (\<lambda>error. io_return None)"

definition getUserByEmail :: "js_string \<Rightarrow> json_obj option io" where
  "getUserByEmail email =
     io_catch
       (prisma_user_findUnique ''email'' email [''id'', ''name'', ''email'', ''password''])
       (\<lambda>error. io_return None)"

record new_user =
  new_name :: js_string
  new_email :: js_string
  new_password :: js_string

definition createUser :: "platform \<Rightarrow> new_user \<Rightarrow> json_obj io" where
  "createUser P d =
     io_catch
       (prisma_user_create_select P (Some (new_name d)) (new_email d) (new_password d)
          [''id'', ''name'', ''email''])
       (\<lambda>error. io_throw error)"

definition updateUser :: "js_string \<Rightarrow> user_patch \<Rightarrow> json_obj option io" where
  "updateUser uid d =
     io_catch
       (io_bind (prisma_user_update ''id'' uid d [''id'', ''name'', ''email''])
          (\<lambda>r. io_return (Some r)))
       (\<lambda>error. io_return None)"

section \<open>Notions the properties are stated with\<close>

text \<open>
  The claims object \<open>sign\<close> builds from a user's \<open>{ id, email, name }\<close> at time \<open>now\<close> with
  \<open>expiresIn: '30d'\<close>.
\<close>

definition stamped_claims :: "user \<Rightarrow> nat \<Rightarrow> json_obj" where
  "stamped_claims u now =
     token_claims u @
       [(''iat'', JNumber (int now)), (''exp'', JNumber (int now + int THIRTY_DAYS))]"

text \<open>
  The library primitives behave on one claims object and secret as base64url, JSON and
  HMAC do: the three parts of the token are free of dots, the signature is not blank,
  and the header and the claims decode to what was encoded.
\<close>

definition jws_faithful_on :: "platform \<Rightarrow> js_string \<Rightarrow> json_obj \<Rightarrow> bool" where
  "jws_faithful_on P secret claims =
     (let h = b64_header P HS256; p = b64_payload P claims;
          s = hmac P HS256 secret (h @ DOT # p)
      in DOT \<notin> set h \<and> DOT \<notin> set p \<and> DOT \<notin> set s \<and> \<not> blank s
         \<and> header_alg P h = Some HS256 \<and> payload_value P h p = Some (JObject claims))"

text \<open>
  The three failure causes of token verification: the token is malformed (not three
  dot-separated parts, or a header or payload part that does not decode), its signature
  is not the HMAC of \<open>header.payload\<close> under the secret, or the \<open>exp\<close> of its claims has
  passed.
\<close>

definition token_malformed :: "platform \<Rightarrow> js_string \<Rightarrow> bool" where
  "token_malformed P token =
     (case split_on DOT token of
        [h, p, s] \<Rightarrow> header_alg P h = None \<or> payload_value P h p = None
      | _ \<Rightarrow> True)"

definition signature_mismatch :: "platform \<Rightarrow> js_string \<Rightarrow> js_string \<Rightarrow> bool" where
  "signature_mismatch P secret token =
     (case split_on DOT token of
        [h, p, s] \<Rightarrow>
          (case header_alg P h of
             Some a \<Rightarrow> s \<noteq> hmac P a secret (h @ DOT # p)
           | None \<Rightarrow> False)
      | _ \<Rightarrow> False)"

definition token_expired :: "platform \<Rightarrow> js_string \<Rightarrow> nat \<Rightarrow> bool" where
  "token_expired P token now =
     (case split_on DOT token of
        [h, p, s] \<Rightarrow>
          (case payload_value P h p of
             Some (JObject claims) \<Rightarrow>
               (case map_of claims ''exp'' of Some (JNumber e) \<Rightarrow> e \<le> int now | _ \<Rightarrow> False)
           | _ \<Rightarrow> False)
      | _ \<Rightarrow> False)"

text \<open>
  What the session cookie stands for at a given moment: the payload of its token when
  the token verifies, nothing otherwise.
\<close>

definition session_identity :: "platform \<Rightarrow> env \<Rightarrow> world \<Rightarrow> json option" where
  "session_identity P E w =
     (case cookie_jar w COOKIE_NAME of
        None \<Rightarrow> None
      | Some c \<Rightarrow>
          (case jwt_verify P (cookie_value c) (JWT_SECRET E) (clock w) of
             Inr payload \<Rightarrow> Some payload
           | Inl _ \<Rightarrow> None))"

text \<open>The row \<open>register\<close> inserts: salt first, then the identifier.\<close>

definition registered_row :: "platform \<Rightarrow> world \<Rightarrow> js_string \<Rightarrow> js_string \<Rightarrow> js_string \<Rightarrow> db_user" where
  "registered_row P w name email password =
     \<lparr>row_user_id = uuid P (Suc (entropy w)), row_email = email, row_name = Some name,
      row_password = bcrypt_hash P password (bcrypt_genSalt P 10 (entropy w)),
      row_createdAt = clock w, row_updatedAt = clock w\<rparr>"

text \<open>The token \<open>generateToken\<close> returns for a user at a time.\<close>

definition the_token :: "platform \<Rightarrow> env \<Rightarrow> user \<Rightarrow> nat \<Rightarrow> js_string" where
  "the_token P E u now =
     b64_header P HS256 @ DOT # b64_payload P (stamped_claims u now) @ DOT #
       hmac P HS256 (JWT_SECRET E)
         (b64_header P HS256 @ DOT # b64_payload P (stamped_claims u now))"

text \<open>The \<open>User\<close> the authentication module builds from the row \<open>register\<close> inserts.\<close>

definition registered_user :: "platform \<Rightarrow> world \<Rightarrow> js_string \<Rightarrow> js_string \<Rightarrow> js_string \<Rightarrow> user" where
  "registered_user P w name email password = user_of_row (registered_row P w name email password)"

text \<open>The world \<open>register\<close> leaves behind when it succeeds.\<close>

definition registered_world :: "platform \<Rightarrow> env \<Rightarrow> world \<Rightarrow> js_string \<Rightarrow> js_string \<Rightarrow> js_string \<Rightarrow> world" where
  "registered_world P E w name email password =
     w\<lparr>db_rows := db_rows w @ [registered_row P w name email password],
       db_log := db_log w @ [FindUniqueByEmail email, CreateUser email],
       cookie_jar := (cookie_jar w)(COOKIE_NAME \<mapsto>
          COOKIE_OPTIONS E (the_token P E (registered_user P w name email password) (clock w))),
       entropy := Suc (Suc (entropy w))\<rparr>"

text \<open>The \<open>local@domain.tld\<close> shape: three non-empty runs free of whitespace and \<open>@\<close>.\<close>

definition email_shape :: "js_string \<Rightarrow> bool" where
  "email_shape s =
     (\<exists>local domain tld.
        s = local @ AT # domain @ DOT # tld
        \<and> local \<noteq> [] \<and> domain \<noteq> [] \<and> tld \<noteq> []
        \<and> list_all not_space_or_at (local @ domain @ tld))"

definition fields_present :: "register_form \<Rightarrow> bool" where
  "fields_present f =
     (form_name f \<notin> {None, Some []} \<and> form_email f \<notin> {None, Some []}
      \<and> form_password f \<notin> {None, Some []} \<and> form_confirmPassword f \<notin> {None, Some []})"

definition form_valid :: "register_form \<Rightarrow> bool" where
  "form_valid f =
     (fields_present f
      \<and> email_shape (the (form_email f))
      \<and> form_password f = form_confirmPassword f
      \<and> 8 \<le> length (the (form_password f)))"

definition validation_messages :: "string set" where
  "validation_messages =
     {''All fields are required'', ''Please enter a valid email address'',
      ''Passwords do not match'', ''Password must be at least 8 characters long''}"

definition is_validation_error :: "form_result \<Rightarrow> bool" where
  "is_validation_error r =
     (form_success r = None \<and> (case form_error r of None \<Rightarrow> False | Some m \<Rightarrow> m \<in> validation_messages))"

section \<open>Concrete instances\<close>

text \<open>
  Small stand-ins for the library primitives, to run the definitions on: a codec that
  knows one claims object and one text payload, a keyed checksum in place of the HMAC,
  a reversing digest.
\<close>

definition demo_platform :: "json_obj \<Rightarrow> platform" where
  "demo_platform known =
     \<lparr>b64_header = (\<lambda>a. case a of HS256 \<Rightarrow> ascii ''h256'' | HS384 \<Rightarrow> ascii ''h384''
                        | HS512 \<Rightarrow> ascii ''h512'' | OtherAlg \<Rightarrow> ascii ''none''),
      header_alg = (\<lambda>s. if s = ascii ''h256'' then Some HS256
                        else if s = ascii ''h384'' then Some HS384
                        else if s = ascii ''h512'' then Some HS512
                        else if s = ascii ''none'' then Some OtherAlg else None),
      b64_payload = (\<lambda>obj. if obj = known then ascii ''claims'' else ascii ''other''),
      payload_value = (\<lambda>h s. if s = ascii ''claims'' then Some (JObject known)
                             else if s = ascii ''text'' then Some (JString (ascii ''hello''))
                             else None),
      hmac = (\<lambda>a key input. ascii ''mac'' @ filter (\<lambda>c. c \<noteq> DOT \<and> \<not> is_space c) (key @ input)),
      bcrypt_genSalt = (\<lambda>rounds r. ascii ''salt'' @ replicate r 0x61),
      bcrypt_hash = (\<lambda>password salt. salt @ 0x24 # rev password),
      bcrypt_compare = (\<lambda>password digest. dropWhile (\<lambda>c. c \<noteq> 0x24) digest = 0x24 # rev password),
      uuid = (\<lambda>r. ascii ''user'' @ replicate r 0x31)\<rparr>"

definition demo_env :: env where
  "demo_env = \<lparr>env_JWT_SECRET = Some (ascii ''k''), env_NODE_ENV = None\<rparr>"

definition ada :: user where
  "ada = \<lparr>user_id = Some (ascii ''user1''), user_name = Some (ascii ''Ada''),
          user_email = ascii ''ada@example.com''\<rparr>"


definition ada_row :: db_user where
  "ada_row =
     \<lparr>row_user_id = ascii ''user1'', row_email = ascii ''ada@example.com'',
      row_name = Some (ascii ''Ada''), row_password = ascii ''salt$1hguonegnol'',
      row_createdAt = 0, row_updatedAt = 0\<rparr>"

definition world_of :: "db_user list \<Rightarrow> bool \<Rightarrow> (string \<rightharpoonup> cookie) \<Rightarrow> world" where
  "world_of rows up jar =
     \<lparr>db_rows = rows, db_up = up, db_log = [], cookie_jar = jar, clock = 1000, entropy = 0\<rparr>"

text \<open>A cookie jar holding just the session cookie.\<close>

definition session_cookie :: "js_string \<Rightarrow> (string \<rightharpoonup> cookie)" where
  "session_cookie token = [COOKIE_NAME \<mapsto> COOKIE_OPTIONS demo_env token]"

definition form_of :: "string \<Rightarrow> string \<Rightarrow> string \<Rightarrow> string \<Rightarrow> register_form" where
  "form_of n e p c =
     \<lparr>form_name = Some (ascii n), form_email = Some (ascii e), form_password = Some (ascii p),
      form_confirmPassword = Some (ascii c)\<rparr>"

definition ada_patch :: user_patch where
  "ada_patch =
     \<lparr>patch_name = Some (ascii ''Ada L.''), patch_email = None, patch_password = None\<rparr>"

definition ada_new :: new_user where
  "ada_new =
     \<lparr>new_name = ascii ''Ada'', new_email = ascii ''ada@example.com'',
      new_password = ascii ''salt$1hguonegnol''\<rparr>"

section \<open>Properties of the token utilities\<close>

lemma split_on_nonempty: "split_on d xs \<noteq> []"
  by (induction xs) (auto split: list.splits)

lemma split_on_free: "d \<notin> set a \<Longrightarrow> split_on d a = [a]"
  by (induction a) auto

lemma split_on_append: "d \<notin> set a \<Longrightarrow> split_on d (a @ d # rest) = a # split_on d rest"
  by (induction a) (auto split: list.splits simp: split_on_nonempty)

lemma split_on_three:
  "d \<notin> set a \<Longrightarrow> d \<notin> set b \<Longrightarrow> d \<notin> set c \<Longrightarrow> split_on d (a @ d # b @ d # c) = [a, b, c]"
  by (simp add: split_on_append split_on_free)

text \<open>The secret is never empty, so \<open>sign\<close> never refuses it.\<close>

lemma JWT_SECRET_nonempty: "JWT_SECRET E \<noteq> []"
  by (simp add: JWT_SECRET_def ascii_def split: option.splits)

lemma jwt_stamp_claims: "jwt_stamp (token_claims u) THIRTY_DAYS now = Inr (stamped_claims u now)"
  by (simp add: jwt_stamp_def token_claims_def set_prop_def stamped_claims_def
        split: option.splits)

lemma generateToken_eq:
  "generateToken P E u now =
     Inr (b64_header P HS256 @ DOT # b64_payload P (stamped_claims u now) @ DOT #
          hmac P HS256 (JWT_SECRET E)
            (b64_header P HS256 @ DOT # b64_payload P (stamped_claims u now)))"
  by (simp add: generateToken_def jwt_sign_def JWT_SECRET_nonempty jwt_stamp_claims Let_def)

lemma jwt_verify_signed:
  assumes "jws_faithful_on P secret claims"
  shows "jwt_verify P (b64_header P HS256 @ DOT # b64_payload P claims @ DOT #
          hmac P HS256 secret (b64_header P HS256 @ DOT # b64_payload P claims)) secret t
        = (case jwt_check_nbf (JObject claims) t of Some e \<Rightarrow> Inl e
           | None \<Rightarrow> (case jwt_check_exp (JObject claims) t of
                        Some e \<Rightarrow> Inl e | None \<Rightarrow> Inr (JObject claims)))"
  using assms by (simp add: jwt_verify_def jws_faithful_on_def Let_def split_on_three)

lemma jwt_verify_generated:
  assumes "jws_faithful_on P (JWT_SECRET E) (stamped_claims u t)"
      and "t' < t + THIRTY_DAYS"
      and "generateToken P E u t = Inr token"
  shows "jwt_verify P token (JWT_SECRET E) t' = Inr (JObject (stamped_claims u t))"
proof -
  let ?c = "stamped_claims u t"
  have nbf: "jwt_check_nbf (JObject ?c) t' = None"
    by (simp add: jwt_check_nbf_def property_def stamped_claims_def token_claims_def
          split: option.splits)
  have exp: "jwt_check_exp (JObject ?c) t' = None"
    using assms(2)
    by (simp add: jwt_check_exp_def property_def stamped_claims_def token_claims_def
          split: option.splits)
  from assms(3) have "token = b64_header P HS256 @ DOT # b64_payload P ?c @ DOT #
          hmac P HS256 (JWT_SECRET E) (b64_header P HS256 @ DOT # b64_payload P ?c)"
    by (simp add: generateToken_eq)
  then show ?thesis
    by (simp add: jwt_verify_signed [OF assms(1)] nbf exp)
qed

lemma stamped_claims_fields:
  "map_of (stamped_claims u t) ''id'' = map_option JString (user_id u)"
  "map_of (stamped_claims u t) ''email'' = Some (JString (user_email u))"
  "map_of (stamped_claims u t) ''name'' = Some (json_of_name (user_name u))"
  by (simp_all add: stamped_claims_def token_claims_def split: option.splits)

lemma demo_faithful:
  "jws_faithful_on (demo_platform (stamped_claims ada 1000)) (JWT_SECRET demo_env)
     (stamped_claims ada 1000)"
  by (simp add: jws_faithful_on_def demo_platform_def demo_env_def JWT_SECRET_def Let_def
        ascii_def DOT_def blank_def is_space_def)

text \<open>
  C1 (token round trip). For every user \<open>u\<close> (id, email, name, the name possibly null)
  and every issue time \<open>t\<close>, \<open>generateToken\<close> returns a token, and \<open>verifyToken\<close> with the
  same secret at any time \<open>t'\<close> before \<open>t\<close> plus thirty days returns a claims object whose
  \<open>id\<close>, \<open>email\<close> and \<open>name\<close> are those of \<open>u\<close> (no \<open>id\<close> when that of \<open>u\<close> is undefined),
  provided the library's encoders and HMAC behave on this claims object as base64url,
  JSON and HMAC do.
\<close>

theorem token_round_trip:
  assumes "jws_faithful_on P (JWT_SECRET E) (stamped_claims u t)"
      and "t' < t + THIRTY_DAYS"
  shows "\<exists>token claims. generateToken P E u t = Inr token
           \<and> verifyToken P E token t' = Inr (Some (JObject claims))
           \<and> map_of claims ''id'' = map_option JString (user_id u)
           \<and> map_of claims ''email'' = Some (JString (user_email u))
           \<and> map_of claims ''name'' = Some (json_of_name (user_name u))"
proof -
  obtain token where tok: "generateToken P E u t = Inr token"
    by (simp add: generateToken_eq)
  have "verifyToken P E token t' = Inr (Some (JObject (stamped_claims u t)))"
    by (simp add: verifyToken_def jwt_verify_generated [OF assms tok])
  with tok show ?thesis
    by (intro exI [of _ token] exI [of _ "stamped_claims u t"]) (simp add: stamped_claims_fields)
qed

theorem token_round_trip_witness:
  "jws_faithful_on (demo_platform (stamped_claims ada 1000)) (JWT_SECRET demo_env)
     (stamped_claims ada 1000)
   \<and> (2000::nat) < 1000 + THIRTY_DAYS
   \<and> (\<exists>token claims.
         generateToken (demo_platform (stamped_claims ada 1000)) demo_env ada 1000 = Inr token
         \<and> verifyToken (demo_platform (stamped_claims ada 1000)) demo_env token 2000
             = Inr (Some (JObject claims))
         \<and> map_of claims ''id'' = Some (JString (ascii ''user1''))
         \<and> map_of claims ''email'' = Some (JString (ascii ''ada@example.com''))
         \<and> map_of claims ''name'' = Some (JString (ascii ''Ada'')))"
proof -
  have t: "(2000::nat) < 1000 + THIRTY_DAYS" by (simp add: THIRTY_DAYS_def)
  show ?thesis
    using token_round_trip [OF demo_faithful t] demo_faithful t
    by (simp add: ada_def json_of_name_def)
qed

lemma demo_token:
  "generateToken (demo_platform (stamped_claims ada 1000)) demo_env ada 1000
     = Inr (ascii ''h256.claims.mackh256claims'')"
  by (simp add: generateToken_eq demo_platform_def demo_env_def JWT_SECRET_def ascii_def
        DOT_def is_space_def)

lemma jwt_verify_malformed:
  "token_malformed P token \<Longrightarrow> \<exists>e. jwt_verify P token secret now = Inl e"
  by (auto simp: token_malformed_def jwt_verify_def split: list.splits option.splits)

lemma jwt_verify_mismatch:
  "signature_mismatch P secret token \<Longrightarrow> \<exists>e. jwt_verify P token secret now = Inl e"
  by (auto simp: signature_mismatch_def jwt_verify_def split: list.splits option.splits)

lemma jwt_check_exp_expired:
  "map_of claims ''exp'' = Some (JNumber e) \<Longrightarrow> e \<le> int now
     \<Longrightarrow> jwt_check_exp (JObject claims) now = Some TokenExpiredError"
  by (simp add: jwt_check_exp_def property_def)

lemma verifyToken_cases:
  "verifyToken P E token now =
     Inr (case jwt_verify P token (JWT_SECRET E) now of Inr c \<Rightarrow> Some c | Inl _ \<Rightarrow> None)"
  by (simp add: verifyToken_def split: sum.splits)

lemma session_verifyToken_eq: "session_verifyToken P E token now = verifyToken P E token now"
  by (simp add: verifyToken_def session_verifyToken_def)

lemmas io_defs = io_bind_def io_return_def io_catch_def io_throw_def io_clock_def

lemma jwt_verify_empty: "\<exists>e. jwt_verify P [] secret now = Inl e"
  by (simp add: jwt_verify_def)

lemma not_three_parts:
  "(\<And>h p s. xs \<noteq> [h, p, s]) \<Longrightarrow> (case xs of [h, p, s] \<Rightarrow> f h p s | _ \<Rightarrow> d) = d"
  by (auto split: list.splits)

lemma token_expired_parts:
  assumes "token_expired P token now"
  obtains h p s claims e where "split_on DOT token = [h, p, s]"
    and "payload_value P h p = Some (JObject claims)"
    and "map_of claims ''exp'' = Some (JNumber e)" and "e \<le> int now"
proof (cases "\<exists>h p s. split_on DOT token = [h, p, s]")
  case False
  then have "\<not> token_expired P token now"
    by (simp add: token_expired_def not_three_parts)
  with assms show ?thesis by simp
next
  case True
  then obtain h p s where parts: "split_on DOT token = [h, p, s]" by blast
  with assms have a: "(case payload_value P h p of
             Some (JObject claims) \<Rightarrow>
               (case map_of claims ''exp'' of Some (JNumber e) \<Rightarrow> e \<le> int now | _ \<Rightarrow> False)
           | _ \<Rightarrow> False)"
    by (simp add: token_expired_def)
  then obtain claims where pl: "payload_value P h p = Some (JObject claims)"
    by (cases "payload_value P h p"; simp split: json.splits)
  with a have b: "(case map_of claims ''exp'' of Some (JNumber e) \<Rightarrow> e \<le> int now | _ \<Rightarrow> False)"
    by simp
  then obtain e where "map_of claims ''exp'' = Some (JNumber e)" "e \<le> int now"
    by (cases "map_of claims ''exp''"; simp split: json.splits)
  with parts pl that show ?thesis by blast
qed

lemma jwt_verify_expired:
  assumes "token_expired P token now"
  shows "\<exists>e. jwt_verify P token secret now = Inl e"
proof -
  from assms obtain h p s claims e where
    parts: "split_on DOT token = [h, p, s]"
    and pl: "payload_value P h p = Some (JObject claims)"
    and ex: "map_of claims ''exp'' = Some (JNumber e)" "e \<le> int now"
    by (rule token_expired_parts)
  have x: "jwt_check_exp (JObject claims) now = Some TokenExpiredError"
    using ex by (rule jwt_check_exp_expired)
  show ?thesis
  proof (cases "header_alg P h")
    case None
    with parts show ?thesis by (simp add: jwt_verify_def)
  next
    case (Some a)
    show ?thesis
    proof (cases "jwt_check_nbf (JObject claims) now")
      case None
      with Some parts pl x show ?thesis by (simp add: jwt_verify_def)
    next
      case (Some e')
      with \<open>header_alg P h = Some a\<close> parts pl show ?thesis by (simp add: jwt_verify_def)
    qed
  qed
qed

text \<open>
  C7 (token verification failure mode). For every input string, both copies of
  \<open>verifyToken\<close> resolve (they never reject), and they resolve to null whenever the token
  is malformed, its signature does not match the secret, or its expiration has passed.
  (A token that is none of these is answered with its payload, claims object or not.)
\<close>

theorem verifyToken_failure_mode:
  "(\<exists>r. verifyToken P E token now = Inr r)
   \<and> (\<exists>r. session_verifyToken P E token now = Inr r)
   \<and> (token_malformed P token \<or> signature_mismatch P (JWT_SECRET E) token
        \<or> token_expired P token now
        \<longrightarrow> verifyToken P E token now = Inr None
            \<and> session_verifyToken P E token now = Inr None)"
proof -
  have "verifyToken P E token now = Inr None"
    if "token_malformed P token \<or> signature_mismatch P (JWT_SECRET E) token
          \<or> token_expired P token now"
  proof -
    from that obtain e where "jwt_verify P token (JWT_SECRET E) now = Inl e"
      using jwt_verify_malformed jwt_verify_mismatch jwt_verify_expired by blast
    then show ?thesis by (simp add: verifyToken_def)
  qed
  then show ?thesis
    by (simp add: session_verifyToken_eq verifyToken_cases)
qed

theorem verifyToken_failure_mode_witness:
  "token_malformed (demo_platform (stamped_claims ada 1000)) (ascii ''not-a-token'')
   \<and> verifyToken (demo_platform (stamped_claims ada 1000)) demo_env (ascii ''not-a-token'') 2000
       = Inr None
   \<and> signature_mismatch (demo_platform (stamped_claims ada 1000)) (JWT_SECRET demo_env)
       (ascii ''h256.claims.forged'')
   \<and> verifyToken (demo_platform (stamped_claims ada 1000)) demo_env
       (ascii ''h256.claims.forged'') 2000 = Inr None
   \<and> token_expired (demo_platform (stamped_claims ada 1000))
       (ascii ''h256.claims.mackh256claims'') 2593000
   \<and> verifyToken (demo_platform (stamped_claims ada 1000)) demo_env
       (ascii ''h256.claims.mackh256claims'') 2593000 = Inr None
   \<and> session_verifyToken (demo_platform (stamped_claims ada 1000)) demo_env
       (ascii ''h256.claims.mackh256claims'') 2593000 = Inr None
   \<and> verifyToken (demo_platform (stamped_claims ada 1000)) demo_env
       (ascii ''h256.text.mackh256text'') 2000 = Inr (Some (JString (ascii ''hello'')))"
proof -
  let ?P = "demo_platform (stamped_claims ada 1000)"
  have a: "token_malformed ?P (ascii ''not-a-token'')"
    by (simp add: token_malformed_def ascii_def DOT_def)
  have b: "signature_mismatch ?P (JWT_SECRET demo_env) (ascii ''h256.claims.forged'')"
    by (simp add: signature_mismatch_def demo_platform_def ascii_def DOT_def)
  have c: "token_expired ?P (ascii ''h256.claims.mackh256claims'') 2593000"
    by (simp add: token_expired_def demo_platform_def ascii_def DOT_def stamped_claims_def
          token_claims_def THIRTY_DAYS_def ada_def)
  have d: "verifyToken ?P demo_env (ascii ''h256.text.mackh256text'') 2000
      = Inr (Some (JString (ascii ''hello'')))"
    by (simp add: verifyToken_def jwt_verify_def demo_platform_def demo_env_def JWT_SECRET_def
          ascii_def DOT_def blank_def is_space_def jwt_check_nbf_def jwt_check_exp_def
          property_def)
  show ?thesis
    using a b c d
      verifyToken_failure_mode [of ?P demo_env "ascii ''not-a-token''" 2000]
      verifyToken_failure_mode [of ?P demo_env "ascii ''h256.claims.forged''" 2000]
      verifyToken_failure_mode [of ?P demo_env "ascii ''h256.claims.mackh256claims''" 2593000]
    by simp
qed

section \<open>Properties of the session utilities\<close>

lemma getSession_eq:
  "getSession P E w =
     (Inr \<lparr>session_user = session_identity P E w,
           isAuthenticated = truthy (session_identity P E w)\<rparr>, w)"
proof (cases "cookie_jar w COOKIE_NAME")
  case None
  then show ?thesis
    by (simp add: getSession_def io_defs cookies_def session_identity_def truthy_def)
next
  case (Some c)
  show ?thesis
  proof (cases "cookie_value c = []")
    case True
    obtain e where "jwt_verify P [] (JWT_SECRET E) (clock w) = Inl e"
      using jwt_verify_empty by blast
    with Some True show ?thesis
      by (simp add: getSession_def io_defs cookies_def session_identity_def truthy_def)
  next
    case False
    show ?thesis
    proof (cases "jwt_verify P (cookie_value c) (JWT_SECRET E) (clock w)")
      case (Inl e)
      with Some False show ?thesis
        by (simp add: getSession_def io_defs cookies_def session_identity_def verifyToken_def
              truthy_def)
    next
      case (Inr v)
      with Some False show ?thesis
        by (simp add: getSession_def io_defs cookies_def session_identity_def verifyToken_def)
    qed
  qed
qed

lemma session_getSession_eq: "session_getSession P E w = getSession P E w"
  by (simp add: getSession_def session_getSession_def io_defs cookies_def
        session_verifyToken_eq verifyToken_cases split: option.splits)

text \<open>
  C6 (getCurrentUser totality). In every world (whatever the cookie store holds: no
  session cookie, one whose token does not verify, one whose token verifies) both copies
  of \<open>getCurrentUser\<close> resolve, to the payload of the cookie's token when it verifies
  and to null otherwise, and change nothing.
\<close>

theorem getCurrentUser_total:
  "getCurrentUser P E w = (Inr (session_identity P E w), w)
   \<and> session_getCurrentUser P E w = (Inr (session_identity P E w), w)"
  by (simp add: getCurrentUser_def session_getCurrentUser_def session_getSession_eq
        getSession_eq io_defs)

theorem getCurrentUser_total_witness:
  "getCurrentUser (demo_platform (stamped_claims ada 1000)) demo_env
       (world_of [] True Map.empty)
     = (Inr None, world_of [] True Map.empty)
   \<and> getCurrentUser (demo_platform (stamped_claims ada 1000)) demo_env
       (world_of [] True (session_cookie (ascii ''h256.claims.forged'')))
     = (Inr None, world_of [] True (session_cookie (ascii ''h256.claims.forged'')))
   \<and> getCurrentUser (demo_platform (stamped_claims ada 1000)) demo_env
       (world_of [] True (session_cookie (ascii ''h256.claims.mackh256claims'')))
     = (Inr (Some (JObject (stamped_claims ada 1000))),
        world_of [] True (session_cookie (ascii ''h256.claims.mackh256claims'')))"
proof -
  let ?P = "demo_platform (stamped_claims ada 1000)"
  have a: "session_identity ?P demo_env (world_of [] True Map.empty) = None"
    by (simp add: session_identity_def world_of_def)
  have "\<exists>e. jwt_verify ?P (ascii ''h256.claims.forged'') (JWT_SECRET demo_env) 1000 = Inl e"
    by (rule jwt_verify_mismatch)
       (simp add: signature_mismatch_def demo_platform_def ascii_def DOT_def)
  then have b: "session_identity ?P demo_env
      (world_of [] True (session_cookie (ascii ''h256.claims.forged''))) = None"
    by (auto simp: session_identity_def world_of_def session_cookie_def COOKIE_OPTIONS_def)
  have "jwt_verify ?P (ascii ''h256.claims.mackh256claims'') (JWT_SECRET demo_env) 1000
      = Inr (JObject (stamped_claims ada 1000))"
    using jwt_verify_generated [OF demo_faithful _ demo_token, of 1000]
    by (simp add: THIRTY_DAYS_def)
  then have c: "session_identity ?P demo_env
      (world_of [] True (session_cookie (ascii ''h256.claims.mackh256claims'')))
       = Some (JObject (stamped_claims ada 1000))"
    by (simp add: session_identity_def world_of_def session_cookie_def COOKIE_OPTIONS_def)
  show ?thesis
    using getCurrentUser_total [of ?P demo_env "world_of [] True Map.empty"]
      getCurrentUser_total [of ?P demo_env
        "world_of [] True (session_cookie (ascii ''h256.claims.forged''))"]
      getCurrentUser_total [of ?P demo_env
        "world_of [] True (session_cookie (ascii ''h256.claims.mackh256claims''))"]
    by (simp only: a b c)
qed

lemma logout_eq: "logout w = (Inr (), w\<lparr>cookie_jar := (cookie_jar w)(COOKIE_NAME := None)\<rparr>)"
  by (simp add: logout_def io_defs cookies_def cookieStore_delete_def)

lemma receive_logoutHandler: "receive logoutHandler jar = jar(COOKIE_NAME := None)"
  by (simp add: receive_def logoutHandler_def NextResponse_json_def)

text \<open>
  C8 (logout idempotence). From every world, \<open>logout\<close> resolves and leaves the session
  cookie absent; a second \<open>logout\<close> gives the same result and the same world as the first;
  with no session cookie to begin with it resolves and changes nothing. The route
  handler's response is a success whose effect on the browser's jar is the same: the
  cookie is absent afterwards, twice is as once, and nothing changes when it was absent.
\<close>

theorem logout_idempotent:
  "fst (logout w) = Inr ()
   \<and> cookie_jar (snd (logout w)) COOKIE_NAME = None
   \<and> logout (snd (logout w)) = logout w
   \<and> (cookie_jar w COOKIE_NAME = None \<longrightarrow> logout w = (Inr (), w))
   \<and> success (body logoutHandler) \<and> status logoutHandler = 200
   \<and> receive logoutHandler jar COOKIE_NAME = None
   \<and> receive logoutHandler (receive logoutHandler jar) = receive logoutHandler jar
   \<and> (jar COOKIE_NAME = None \<longrightarrow> receive logoutHandler jar = jar)"
proof -
  have h: "success (body logoutHandler) \<and> status logoutHandler = 200"
    by (simp add: logoutHandler_def NextResponse_json_def)
  have l: "cookie_jar w COOKIE_NAME = None \<longrightarrow> logout w = (Inr (), w)"
    by (simp add: logout_eq fun_upd_idem)
  show ?thesis
    using h l by (simp add: logout_eq receive_logoutHandler fun_upd_idem)
qed

theorem logout_idempotent_witness:
  "cookie_jar (world_of [] True Map.empty) COOKIE_NAME = None
   \<and> logout (world_of [] True Map.empty) = (Inr (), world_of [] True Map.empty)
   \<and> receive logoutHandler Map.empty = Map.empty"
  using logout_idempotent [of "world_of [] True Map.empty" Map.empty]
  by (simp add: world_of_def)

section \<open>Properties of the authentication actions\<close>

lemma find_email_taken:
  "email \<in> row_email ` set rows \<Longrightarrow> \<exists>u. find (\<lambda>r. row_email r = email) rows = Some u"
  by (cases "find (\<lambda>r. row_email r = email) rows") (auto simp: find_None_iff)


lemma register_existing:
  assumes "find (\<lambda>r. row_email r = email) (db_rows w) = Some u"
  shows "register P E name email password w =
     (Inr (if db_up w then failure ''User already exists''
           else failure ''An error occurred during registration''),
      w\<lparr>db_log := db_log w @ [FindUniqueByEmail email]\<rparr>)"
  using assms by (simp add: register_def io_defs prisma_user_findUnique_email_def Let_def)

lemma registerHandler_existing:
  assumes "find (\<lambda>r. row_email r = email) (db_rows w) = Some u"
  shows "registerHandler P E name email password w =
     (Inr (if db_up w then NextResponse_json (failure ''User already exists'') 409
           else NextResponse_json (failure ''An error occurred during registration'') 500),
      w\<lparr>db_log := db_log w @ [FindUniqueByEmail email]\<rparr>)"
  using assms by (simp add: registerHandler_def io_defs prisma_user_findUnique_email_def Let_def)

lemma generateToken_the: "generateToken P E u now = Inr (the_token P E u now)"
  by (simp add: generateToken_eq the_token_def)

lemma register_unused:
  assumes "db_up w" and "find (\<lambda>r. row_email r = email) (db_rows w) = None"
      and "storable name" and "storable email"
      and "storable (bcrypt_hash P password (bcrypt_genSalt P 10 (entropy w)))"
  shows "register P E name email password w =
     (Inr \<lparr>success = True, message = None,
           result_user = Some (registered_user P w name email password)\<rparr>,
      registered_world P E w name email password)"
  using assms
  by (simp add: register_def io_defs prisma_user_findUnique_email_def Let_def hashPassword_def
        prisma_user_create_def generateToken_the cookies_def cookieStore_set_def
        registered_row_def registered_user_def registered_world_def storable_opt_def)

lemma register_refused:
  assumes "db_up w" and "find (\<lambda>r. row_email r = email) (db_rows w) = None"
      and "\<not> (storable name \<and> storable email
             \<and> storable (bcrypt_hash P password (bcrypt_genSalt P 10 (entropy w))))"
  shows "register P E name email password w =
     (Inr (failure ''An error occurred during registration''),
      w\<lparr>db_log := db_log w @ [FindUniqueByEmail email, CreateUser email],
        entropy := Suc (entropy w)\<rparr>)"
  using assms
  by (simp add: register_def io_defs prisma_user_findUnique_email_def Let_def hashPassword_def
        prisma_user_create_def storable_opt_def)




text \<open>
  C2 (registration conflict). For every registration attempt whose email already belongs
  to a row of the User table, neither \<open>register\<close> nor \<open>registerHandler\<close> adds or changes a
  row or sets a cookie; and when the store answers the lookup, \<open>register\<close> resolves to
  the failure "User already exists" and \<open>registerHandler\<close> to the same body with status
  409.
\<close>

theorem register_conflict:
  assumes "email \<in> row_email ` set (db_rows w)"
  shows "db_rows (snd (register P E name email password w)) = db_rows w
       \<and> cookie_jar (snd (register P E name email password w)) = cookie_jar w
       \<and> db_rows (snd (registerHandler P E name email password w)) = db_rows w
       \<and> (\<exists>resp. fst (registerHandler P E name email password w) = Inr resp
                   \<and> cookie_ops resp = [])
       \<and> (db_up w \<longrightarrow>
            fst (register P E name email password w) = Inr (failure ''User already exists'')
          \<and> fst (registerHandler P E name email password w)
              = Inr (NextResponse_json (failure ''User already exists'') 409))"
proof -
  from assms obtain u where "find (\<lambda>r. row_email r = email) (db_rows w) = Some u"
    using find_email_taken by blast
  then show ?thesis
    by (simp add: register_existing registerHandler_existing NextResponse_json_def)
qed

theorem register_conflict_witness:
  "ascii ''ada@example.com'' \<in> row_email ` set (db_rows (world_of [ada_row] True Map.empty))
   \<and> db_up (world_of [ada_row] True Map.empty)
   \<and> fst (register (demo_platform []) demo_env (ascii ''Eve'') (ascii ''ada@example.com'')
            (ascii ''longenough2'') (world_of [ada_row] True Map.empty))
       = Inr (failure ''User already exists'')
   \<and> db_rows (snd (register (demo_platform []) demo_env (ascii ''Eve'') (ascii ''ada@example.com'')
            (ascii ''longenough2'') (world_of [ada_row] True Map.empty))) = [ada_row]
   \<and> fst (registerHandler (demo_platform []) demo_env (ascii ''Eve'') (ascii ''ada@example.com'')
            (ascii ''longenough2'') (world_of [ada_row] True Map.empty))
       = Inr (NextResponse_json (failure ''User already exists'') 409)
   \<and> db_rows (snd (registerHandler (demo_platform []) demo_env (ascii ''Eve'') (ascii ''ada@example.com'')
            (ascii ''longenough2'') (world_of [ada_row] True Map.empty))) = [ada_row]"
proof -
  have a: "ascii ''ada@example.com'' \<in> row_email ` set (db_rows (world_of [ada_row] True Map.empty))"
    by (simp add: world_of_def ada_row_def)
  have b: "db_up (world_of [ada_row] True Map.empty)" "db_rows (world_of [ada_row] True Map.empty) = [ada_row]"
    by (simp_all add: world_of_def)
  show ?thesis
    using register_conflict [OF a, of "demo_platform []" demo_env "ascii ''Eve''" "ascii ''longenough2''"] a b
    by simp
qed
















section \<open>Properties of the form handler\<close>

text \<open>The derivative matcher decides membership in the language of the pattern.\<close>

lemma conc_iff: "w \<in> conc A B \<longleftrightarrow> (\<exists>u v. w = u @ v \<and> u \<in> A \<and> v \<in> B)"
  by (auto simp: conc_def)

lemma Nil_in_conc: "[] \<in> conc A B \<longleftrightarrow> [] \<in> A \<and> [] \<in> B"
  by (auto simp: conc_def)

lemma Cons_in_conc:
  "c # w \<in> conc A B \<longleftrightarrow>
     (\<exists>u v. w = u @ v \<and> c # u \<in> A \<and> v \<in> B) \<or> ([] \<in> A \<and> c # w \<in> B)"
  by (auto simp: conc_def Cons_eq_append_conv)

lemma star_Cons_elim:
  assumes "x \<in> star A" and "x = c # w"
  shows "\<exists>u v. w = u @ v \<and> c # u \<in> A \<and> v \<in> star A"
  using assms
proof (induction rule: star.induct)
  case star_Nil
  then show ?case by simp
next
  case (star_step u v)
  show ?case
  proof (cases u)
    case Nil
    with star_step show ?thesis by simp
  next
    case (Cons a u')
    with star_step.prems have "a = c" and "w = u' @ v" by simp_all
    with Cons star_step.hyps show ?thesis by blast
  qed
qed

lemma Cons_in_star:
  "c # w \<in> star A \<longleftrightarrow> (\<exists>u v. w = u @ v \<and> c # u \<in> A \<and> v \<in> star A)"
proof
  assume "c # w \<in> star A"
  then show "\<exists>u v. w = u @ v \<and> c # u \<in> A \<and> v \<in> star A"
    by (rule star_Cons_elim) simp
next
  assume "\<exists>u v. w = u @ v \<and> c # u \<in> A \<and> v \<in> star A"
  then obtain u v where "w = u @ v" "c # u \<in> A" "v \<in> star A" by blast
  then show "c # w \<in> star A"
    using star_step [of "c # u" A v] by simp
qed

lemma nullable_lang: "nullable r \<longleftrightarrow> [] \<in> lang r"
  by (induction r) (auto simp: Nil_in_conc star_Nil)

lemma lang_deriv: "w \<in> lang (deriv c r) \<longleftrightarrow> c # w \<in> lang r"
proof (induction r arbitrary: w)
  case (Seq r s)
  have "w \<in> lang (deriv c (Seq r s)) \<longleftrightarrow>
      (\<exists>u v. w = u @ v \<and> u \<in> lang (deriv c r) \<and> v \<in> lang s)
      \<or> (nullable r \<and> w \<in> lang (deriv c s))"
    by (auto simp: conc_iff)
  then show ?case
    by (simp add: Seq Cons_in_conc nullable_lang)
next
  case (Star r)
  then show ?case
    by (simp add: Cons_in_star conc_iff)
qed auto

lemma regex_test_lang: "regex_test r s \<longleftrightarrow> s \<in> lang r"
  by (induction s arbitrary: r) (simp_all add: nullable_lang lang_deriv)

lemma star_Atom: "w \<in> star {[c] | c. p c} \<longleftrightarrow> list_all p w"
proof
  assume "w \<in> star {[c] | c. p c}"
  then show "list_all p w"
    by (induction rule: star.induct) auto
next
  assume "list_all p w"
  then show "w \<in> star {[c] | c. p c}"
  proof (induction w)
    case Nil
    show ?case by (rule star_Nil)
  next
    case (Cons a w)
    then have "[a] \<in> {[c] | c. p c}" and "w \<in> star {[c] | c. p c}" by simp_all
    then have "[a] @ w \<in> star {[c] | c. p c}" by (rule star_step)
    then show ?case by simp
  qed
qed

lemma lang_Plus_Atom: "w \<in> lang (Plus (Atom p)) \<longleftrightarrow> w \<noteq> [] \<and> list_all p w"
  by (cases w) (auto simp: Plus_def Nil_in_conc Cons_in_conc star_Atom)

lemma isValidEmail_shape: "isValidEmail s \<longleftrightarrow> email_shape s"
proof -
  have "s \<in> lang emailRegex \<longleftrightarrow>
      (\<exists>l d t. s = l @ [AT] @ d @ [DOT] @ t
          \<and> l \<in> lang (Plus (Atom not_space_or_at))
          \<and> d \<in> lang (Plus (Atom not_space_or_at))
          \<and> t \<in> lang (Plus (Atom not_space_or_at)))"
    unfolding emailRegex_def lang.simps(5) conc_iff by (simp add: conc_iff) blast
  then show ?thesis
    by (simp add: isValidEmail_def regex_test_lang email_shape_def lang_Plus_Atom) blast
qed

lemma register_down:
  assumes "\<not> db_up w"
  shows "register P E name email password w =
     (Inr (failure ''An error occurred during registration''),
      w\<lparr>db_log := db_log w @ [FindUniqueByEmail email]\<rparr>)"
  using assms by (simp add: register_def io_defs prisma_user_findUnique_email_def Let_def)

lemma register_outcome:
  "\<exists>r w'. register P E name email password w = (Inr r, w')
     \<and> (success r \<or> message r = Some ''User already exists''
          \<or> message r = Some ''An error occurred during registration'')
     \<and> take (Suc (length (db_log w))) (db_log w') = db_log w @ [FindUniqueByEmail email]"
proof (cases "db_up w")
  case False
  then show ?thesis by (simp add: register_down failure_def)
next
  case True
  show ?thesis
  proof (cases "find (\<lambda>r. row_email r = email) (db_rows w)")
    case None
    show ?thesis
    proof (cases "storable name \<and> storable email
        \<and> storable (bcrypt_hash P password (bcrypt_genSalt P 10 (entropy w)))")
      case True
      with \<open>db_up w\<close> None show ?thesis
        by (simp add: register_unused registered_world_def)
    next
      case False
      from register_refused [OF \<open>db_up w\<close> None False] show ?thesis
        by (simp add: failure_def)
    qed
  next
    case (Some u)
    with True show ?thesis by (simp add: register_existing failure_def)
  qed
qed

lemma form_failed_validation [simp]:
  "is_validation_error (form_failed m) \<longleftrightarrow> m \<in> validation_messages"
  by (simp add: is_validation_error_def form_failed_def)

lemma handleRegister_invalid:
  assumes "\<not> form_valid f"
  shows "\<exists>res. handleRegister P E f w = (Inr res, w) \<and> is_validation_error res"
  using assms
  by (auto simp: handleRegister_def form_valid_def fields_present_def isValidEmail_shape
        io_return_def validation_messages_def split: option.splits)

lemma handleRegister_valid:
  assumes "form_valid f"
  shows "\<exists>res w'. handleRegister P E f w = (Inr res, w') \<and> \<not> is_validation_error res
     \<and> take (Suc (length (db_log w))) (db_log w') = db_log w @ [FindUniqueByEmail (the (form_email f))]"
proof -
  from assms obtain name email password where
    f: "form_name f = Some name" "form_email f = Some email" "form_password f = Some password"
       "form_confirmPassword f = Some password"
    and ne: "name \<noteq> []" "email \<noteq> []" "password \<noteq> []"
    and ok: "isValidEmail email" "8 \<le> length password"
    by (auto simp: form_valid_def fields_present_def isValidEmail_shape)
  obtain r w' where r: "register P E name email password w = (Inr r, w')"
    and m: "success r \<or> message r = Some ''User already exists''
          \<or> message r = Some ''An error occurred during registration''"
    and l: "take (Suc (length (db_log w))) (db_log w') = db_log w @ [FindUniqueByEmail email]"
    using register_outcome by blast
  have "handleRegister P E f w =
      (Inr (if \<not> success r then form_failed (or_default (message r) ''Failed to register'')
            else \<lparr>form_error = None, form_success = Some True\<rparr>), w')"
    using f ne ok r by (simp add: handleRegister_def io_defs)
  moreover have "\<not> is_validation_error (if \<not> success r then form_failed (or_default (message r) ''Failed to register'')
            else \<lparr>form_error = None, form_success = Some True\<rparr>)"
  proof (cases "success r")
    case True
    then show ?thesis by (simp add: is_validation_error_def)
  next
    case False
    with m show ?thesis
      by (auto simp: or_default_def validation_messages_def)
  qed
  ultimately show ?thesis
    using l f by simp
qed

lemma demo_email_valid: "isValidEmail (ascii ''ada@example.com'')"
  by (simp add: isValidEmail_def emailRegex_def Plus_def not_space_or_at_def is_space_def
        AT_def DOT_def ascii_def)

lemma demo_email_invalid: "\<not> isValidEmail (ascii ''ada@example'')"
  by (simp add: isValidEmail_def emailRegex_def Plus_def not_space_or_at_def is_space_def
        AT_def DOT_def ascii_def)

lemma seven_invalid: "\<not> form_valid (form_of ''Ada'' ''ada@example.com'' ''seven77'' ''seven77'')"
  by (simp add: form_valid_def form_of_def ascii_def)

lemma eight_valid: "form_valid (form_of ''Ada'' ''ada@example.com'' ''eight888'' ''eight888'')"
  using demo_email_valid
  by (simp add: form_valid_def form_of_def fields_present_def isValidEmail_shape)
     (simp add: ascii_def)

text \<open>
  C5 (form-based registration validation). For every form submission \<open>handleRegister\<close>
  resolves, and its result is one of the four validation errors exactly when the form
  is not valid, that is, unless all four fields are present and non-empty, the email
  has the \<open>local@domain.tld\<close> shape, the password equals its confirmation and the
  password has at least 8 characters. On a validation error the world is unchanged: no
  statement has been sent to the store. On a valid form the next statement sent to the
  store is the lookup of the email by \<open>register\<close>. In particular a password of exactly
  7 characters always gives a validation error, and one of exactly 8 characters, the
  other checks passing, does not.
\<close>

theorem handleRegister_validation:
  "\<exists>res. fst (handleRegister P E f w) = Inr res
     \<and> (is_validation_error res \<longleftrightarrow> \<not> form_valid f)
     \<and> (\<not> form_valid f \<longrightarrow> snd (handleRegister P E f w) = w)
     \<and> (form_valid f \<longrightarrow>
          take (Suc (length (db_log w))) (db_log (snd (handleRegister P E f w)))
            = db_log w @ [FindUniqueByEmail (the (form_email f))])
     \<and> (\<forall>password. form_password f = Some password \<and> length password = 7
          \<longrightarrow> is_validation_error res)
     \<and> (\<forall>password. fields_present f \<and> email_shape (the (form_email f))
            \<and> form_confirmPassword f = Some password \<and> form_password f = Some password
            \<and> length password = 8
          \<longrightarrow> \<not> is_validation_error res)"
proof (cases "form_valid f")
  case True
  from handleRegister_valid [OF True, of P E w] obtain res w' where
    "handleRegister P E f w = (Inr res, w')" "\<not> is_validation_error res"
    "take (Suc (length (db_log w))) (db_log w') = db_log w @ [FindUniqueByEmail (the (form_email f))]"
    by blast
  with True show ?thesis
    by (auto simp: form_valid_def)
next
  case False
  from handleRegister_invalid [OF False, of P E w] obtain res where
    "handleRegister P E f w = (Inr res, w)" "is_validation_error res"
    by blast
  with False show ?thesis
    by (auto simp: form_valid_def)
qed

theorem handleRegister_validation_witness:
  "form_password (form_of ''Ada'' ''ada@example.com'' ''seven77'' ''seven77'') = Some (ascii ''seven77'')
   \<and> length (ascii ''seven77'') = 7
   \<and> handleRegister (demo_platform []) demo_env
        (form_of ''Ada'' ''ada@example.com'' ''seven77'' ''seven77'') (world_of [] True Map.empty)
      = (Inr (form_failed ''Password must be at least 8 characters long''), world_of [] True Map.empty)
   \<and> (\<exists>res. fst (handleRegister (demo_platform []) demo_env
          (form_of ''Ada'' ''ada@example.com'' ''seven77'' ''seven77'') (world_of [] True Map.empty)) = Inr res
        \<and> is_validation_error res)
   \<and> form_valid (form_of ''Ada'' ''ada@example.com'' ''eight888'' ''eight888'')
   \<and> length (ascii ''eight888'') = 8
   \<and> fst (handleRegister (demo_platform []) demo_env
        (form_of ''Ada'' ''ada@example.com'' ''eight888'' ''eight888'') (world_of [] True Map.empty))
      = Inr \<lparr>form_error = None, form_success = Some True\<rparr>
   \<and> (\<exists>res. fst (handleRegister (demo_platform []) demo_env
          (form_of ''Ada'' ''ada@example.com'' ''eight888'' ''eight888'') (world_of [] True Map.empty)) = Inr res
        \<and> \<not> is_validation_error res)"
proof -
  let ?w = "world_of [] True Map.empty"
  let ?f7 = "form_of ''Ada'' ''ada@example.com'' ''seven77'' ''seven77''"
  let ?f8 = "form_of ''Ada'' ''ada@example.com'' ''eight888'' ''eight888''"
  have a: "form_password ?f7 = Some (ascii ''seven77'')" "length (ascii ''seven77'') = 7"
    "length (ascii ''eight888'') = 8"
    by (simp_all add: form_of_def ascii_def)
  have b: "handleRegister (demo_platform []) demo_env ?f7 ?w
      = (Inr (form_failed ''Password must be at least 8 characters long''), ?w)"
    using demo_email_valid
    by (simp add: handleRegister_def form_of_def io_return_def) (simp add: ascii_def)
  have up: "db_up ?w" "find (\<lambda>r. row_email r = ascii ''ada@example.com'') (db_rows ?w) = None"
    "storable (ascii ''Ada'')" "storable (ascii ''ada@example.com'')"
    "storable (bcrypt_hash (demo_platform []) (ascii ''eight888'')
       (bcrypt_genSalt (demo_platform []) 10 (entropy ?w)))"
    by (simp_all add: world_of_def storable_def ascii_def demo_platform_def)
  have c: "fst (handleRegister (demo_platform []) demo_env ?f8 ?w)
      = Inr \<lparr>form_error = None, form_success = Some True\<rparr>"
    using demo_email_valid
    by (simp add: handleRegister_def form_of_def io_defs register_unused [OF up])
       (simp add: ascii_def)
  show ?thesis
    using handleRegister_validation [of "demo_platform []" demo_env ?f7 ?w]
      handleRegister_validation [of "demo_platform []" demo_env ?f8 ?w]
      seven_invalid eight_valid a b c
    by simp
qed

section \<open>Properties of the user repository\<close>

text \<open>What a \<open>try\<close> whose handler returns null, or rethrows, does with a rejection.\<close>

lemma catch_to_null:
  "fst (m w) = Inl e \<Longrightarrow> fst (io_catch m (\<lambda>error. io_return None) w) = Inr None"
  by (cases "m w") (simp add: io_defs)

lemma catch_rethrow:
  "fst (m w) = Inl e \<Longrightarrow> fst (io_catch m (\<lambda>error. io_throw error) w) = Inl e"
  by (cases "m w") (simp add: io_defs)

lemma bind_rejects:
  "fst (m w) = Inl e \<Longrightarrow> fst (io_bind m f w) = Inl e"
  by (cases "m w") (simp add: io_defs)

text \<open>
  The schema has no field \<open>id\<close>: the ORM rejects every call of the repository module
  before anything is sent to the store.
\<close>

lemma repository_calls_rejected:
  "prisma_user_findUnique ''id'' uid [''id'', ''name'', ''email''] w
     = (Inl PrismaClientValidationError, w)"
  "prisma_user_findUnique ''email'' email [''id'', ''name'', ''email'', ''password''] w
     = (Inl PrismaClientValidationError, w)"
  "prisma_user_update ''id'' uid d [''id'', ''name'', ''email''] w
     = (Inl PrismaClientValidationError, w)"
  "prisma_user_create_select P name email password [''id'', ''name'', ''email''] w
     = (Inl PrismaClientValidationError, w)"
  by (simp_all add: prisma_user_findUnique_def prisma_user_update_def
        prisma_user_create_select_def User_fields_def User_unique_fields_def)

lemma repository_results:
  "getUserById uid w = (Inr None, w)"
  "getUserByEmail email w = (Inr None, w)"
  "updateUser uid d w = (Inr None, w)"
  "createUser P n w = (Inl PrismaClientValidationError, w)"
  by (simp_all add: getUserById_def getUserByEmail_def updateUser_def createUser_def
        repository_calls_rejected io_defs)

text \<open>By the key the schema names, the same lookup finds the row.\<close>

lemma findUnique_by_key:
  "fst (prisma_user_findUnique ''user_id'' (ascii ''user1'') [''user_id'', ''name'', ''email'']
          (world_of [ada_row] True Map.empty))
     = Inr (Some [(''user_id'', JString (ascii ''user1'')),
                  (''email'', JString (ascii ''ada@example.com'')),
                  (''name'', JString (ascii ''Ada''))])"
  by (simp add: prisma_user_findUnique_def User_fields_def User_unique_fields_def Let_def
        world_of_def has_value_def row_object_def ada_row_def select_fields_def
        json_of_name_def)

text \<open>
  C4, as stated, fails: a failure is converted into a null result. With Ada's row in the
  table the ORM call of \<open>getUserById\<close> rejects, yet \<open>getUserById\<close> resolves to null, and so
  do \<open>getUserByEmail\<close> and \<open>updateUser\<close>; with the store out of reach they resolve to null
  as well.
\<close>

theorem repository_failure_counterexample:
  "fst (prisma_user_findUnique ''id'' (ascii ''user1'') [''id'', ''name'', ''email'']
          (world_of [ada_row] True Map.empty)) = Inl PrismaClientValidationError
   \<and> fst (getUserById (ascii ''user1'') (world_of [ada_row] True Map.empty)) = Inr None
   \<and> fst (prisma_user_findUnique ''email'' (ascii ''ada@example.com'')
          [''id'', ''name'', ''email'', ''password''] (world_of [ada_row] True Map.empty))
       = Inl PrismaClientValidationError
   \<and> fst (getUserByEmail (ascii ''ada@example.com'') (world_of [ada_row] True Map.empty))
       = Inr None
   \<and> fst (prisma_user_update ''id'' (ascii ''user1'') ada_patch [''id'', ''name'', ''email'']
          (world_of [ada_row] True Map.empty)) = Inl PrismaClientValidationError
   \<and> fst (updateUser (ascii ''user1'') ada_patch (world_of [ada_row] True Map.empty)) = Inr None
   \<and> \<not> db_up (world_of [ada_row] False Map.empty)
   \<and> fst (getUserById (ascii ''user1'') (world_of [ada_row] False Map.empty)) = Inr None
   \<and> fst (getUserByEmail (ascii ''ada@example.com'') (world_of [ada_row] False Map.empty))
       = Inr None
   \<and> fst (updateUser (ascii ''user1'') ada_patch (world_of [ada_row] False Map.empty))
       = Inr None"
  by (simp add: repository_calls_rejected repository_results) (simp add: world_of_def)

text \<open>
  C4, amended (error handling of the user repository). Whenever its ORM call rejects,
  whatever the error, \<open>getUserById\<close>, \<open>getUserByEmail\<close> and \<open>updateUser\<close> catch the error
  and resolve to null, and \<open>createUser\<close> rejects with that same error. An id or an email
  that no row has yields null from \<open>getUserById\<close>, \<open>updateUser\<close> and \<open>getUserByEmail\<close>.
\<close>

theorem repository_error_handling:
  "(\<forall>e. fst (prisma_user_findUnique ''id'' uid [''id'', ''name'', ''email''] w) = Inl e
        \<longrightarrow> fst (getUserById uid w) = Inr None)
   \<and> (\<forall>e. fst (prisma_user_findUnique ''email'' email
                 [''id'', ''name'', ''email'', ''password''] w) = Inl e
        \<longrightarrow> fst (getUserByEmail email w) = Inr None)
   \<and> (\<forall>e. fst (prisma_user_update ''id'' uid d [''id'', ''name'', ''email''] w) = Inl e
        \<longrightarrow> fst (updateUser uid d w) = Inr None)
   \<and> (\<forall>e. fst (prisma_user_create_select P (Some (new_name n)) (new_email n) (new_password n)
                 [''id'', ''name'', ''email''] w) = Inl e
        \<longrightarrow> fst (createUser P n w) = Inl e)
   \<and> (uid \<notin> row_user_id ` set (db_rows w)
        \<longrightarrow> fst (getUserById uid w) = Inr None \<and> fst (updateUser uid d w) = Inr None)
   \<and> (email \<notin> row_email ` set (db_rows w) \<longrightarrow> fst (getUserByEmail email w) = Inr None)"
proof -
  have a: "\<forall>e. fst (prisma_user_findUnique ''id'' uid [''id'', ''name'', ''email''] w) = Inl e
        \<longrightarrow> fst (getUserById uid w) = Inr None"
    unfolding getUserById_def by (blast intro: catch_to_null)
  have b: "\<forall>e. fst (prisma_user_findUnique ''email'' email
                 [''id'', ''name'', ''email'', ''password''] w) = Inl e
        \<longrightarrow> fst (getUserByEmail email w) = Inr None"
    unfolding getUserByEmail_def by (blast intro: catch_to_null)
  have c: "\<forall>e. fst (prisma_user_update ''id'' uid d [''id'', ''name'', ''email''] w) = Inl e
        \<longrightarrow> fst (updateUser uid d w) = Inr None"
    unfolding updateUser_def by (blast intro: catch_to_null bind_rejects)
  have d: "\<forall>e. fst (prisma_user_create_select P (Some (new_name n)) (new_email n)
                 (new_password n) [''id'', ''name'', ''email''] w) = Inl e
        \<longrightarrow> fst (createUser P n w) = Inl e"
    unfolding createUser_def by (blast intro: catch_rethrow)
  from a b c d show ?thesis
    by (simp add: repository_results)
qed

theorem repository_error_handling_witness:
  "fst (prisma_user_findUnique ''id'' (ascii ''user1'') [''id'', ''name'', ''email'']
          (world_of [ada_row] True Map.empty)) = Inl PrismaClientValidationError
   \<and> fst (getUserById (ascii ''user1'') (world_of [ada_row] True Map.empty)) = Inr None
   \<and> fst (prisma_user_create_select (demo_platform []) (Some (new_name ada_new))
          (new_email ada_new) (new_password ada_new) [''id'', ''name'', ''email'']
          (world_of [ada_row] True Map.empty)) = Inl PrismaClientValidationError
   \<and> fst (createUser (demo_platform []) ada_new (world_of [ada_row] True Map.empty))
       = Inl PrismaClientValidationError
   \<and> ascii ''user2'' \<notin> row_user_id ` set (db_rows (world_of [ada_row] True Map.empty))
   \<and> fst (getUserById (ascii ''user2'') (world_of [ada_row] True Map.empty)) = Inr None
   \<and> fst (updateUser (ascii ''user2'') ada_patch (world_of [ada_row] True Map.empty)) = Inr None
   \<and> ascii ''bob@example.com'' \<notin> row_email ` set (db_rows (world_of [ada_row] True Map.empty))
   \<and> fst (getUserByEmail (ascii ''bob@example.com'') (world_of [ada_row] True Map.empty))
       = Inr None"
proof -
  let ?w = "world_of [ada_row] True Map.empty"
  have a: "fst (prisma_user_findUnique ''id'' (ascii ''user1'') [''id'', ''name'', ''email''] ?w)
      = Inl PrismaClientValidationError"
    "fst (prisma_user_create_select (demo_platform []) (Some (new_name ada_new))
          (new_email ada_new) (new_password ada_new) [''id'', ''name'', ''email''] ?w)
      = Inl PrismaClientValidationError"
    by (simp_all add: repository_calls_rejected)
  have b: "ascii ''user2'' \<notin> row_user_id ` set (db_rows ?w)"
    "ascii ''bob@example.com'' \<notin> row_email ` set (db_rows ?w)"
    by (simp_all add: world_of_def ada_row_def ascii_def)
  show ?thesis
    using a b
      repository_error_handling [of "ascii ''user1''" ?w "ascii ''bob@example.com''" ada_patch
        "demo_platform []" ada_new]
      repository_error_handling [of "ascii ''user2''" ?w "ascii ''bob@example.com''" ada_patch
        "demo_platform []" ada_new]
    by simp
qed

end
